theory Spec2Isabelle
  imports Main "HOL-Library.Char_ord" "HOL-Library.List_Lexorder" "HOL-Library.Product_Lexorder"
begin

unbundle bit_operations_syntax

section \<open>Python values and strings\<close>

text \<open>
  A Python \<open>str\<close> is modelled by its UTF-8 bytes. Concatenation and equality are the
  same on both sides, and byte-wise lexicographic order is code-point order, which is
  how Python compares strings. An exception is represented by its \<open>str(e)\<close> text,
  the only thing the program ever reads from it.
\<close>

datatype py_exception = PyException string

fun exc_str :: "py_exception \<Rightarrow> string" where
  "exc_str (PyException m) = m"

definition em_dash :: string where
  "em_dash = [CHR 0xE2, CHR 0x80, CHR 0x94]"


definition sep :: string where
  "sep = [CHR 0x5C]"


definition digit_char :: "nat \<Rightarrow> char" where
  "digit_char d = ''0123456789'' ! d"

fun digits :: "nat \<Rightarrow> string" where
  "digits n = (if n < 10 then [digit_char n] else digits (n div 10) @ [digit_char (n mod 10)])"

declare digits.simps [simp del]

definition str_int :: "int \<Rightarrow> string" where
  "str_int i = (if i < 0 then ''-'' @ digits (nat (- i)) else digits (nat i))"


text \<open>
  \<open>xs[:n]\<close> for a Python integer \<open>n\<close>: a prefix of length \<open>n\<close>, and for a negative
  \<open>n\<close> everything but the last \<open>-n\<close> items.
\<close>

definition py_slice_to :: "int \<Rightarrow> 'a list \<Rightarrow> 'a list" where
  "py_slice_to n xs = (if 0 \<le> n then take (nat n) xs else take (length xs - nat (- n)) xs)"

text \<open>
  \<open>sorted(xs, reverse=True)\<close>: CPython reverses the list, sorts it stably in ascending
  order and reverses the result.
\<close>

definition sorted_reverse :: "string list \<Rightarrow> string list" where
  "sorted_reverse xs = rev (sort (rev xs))"

section \<open>The host: file system, structured stores, event log\<close>

text \<open>
  The values a SQLite column of the queried tables yields in Python: \<open>None\<close>, an
  \<open>int\<close> or a \<open>str\<close>. (REAL and BLOB columns are outside the model: the queried
  columns are text and integer columns.)
\<close>

datatype sql_value = SqlNull | SqlInt int | SqlText string

type_synonym row = "sql_value list"

fun py_str :: "sql_value \<Rightarrow> string" where
  "py_str SqlNull = ''None''"
| "py_str (SqlInt i) = str_int i"
| "py_str (SqlText s) = s"

fun py_truthy :: "sql_value \<Rightarrow> bool" where
  "py_truthy SqlNull = False"
| "py_truthy (SqlInt i) = (i \<noteq> 0)"
| "py_truthy (SqlText s) = (s \<noteq> [])"

text \<open>
  The content of a regular file, as far as the program can observe it: either SQLite
  cannot read it as a database, or it holds named tables. A table is stored as the three
  columns the queries select: url, title and the visit time. A zero-byte file is the
  database without tables.
\<close>

datatype file_content = NotADatabase | Database "(string \<times> (sql_value \<times> sql_value \<times> sql_value) list) list"

text \<open>
  \<open>SelectRecent t\<close> stands for
  \<open>SELECT url, title, <visit time> FROM t ORDER BY <visit time> DESC LIMIT ?\<close>.
\<close>

datatype sql_query = SelectRecent string

text \<open>
  SQLite's order of values: NULL, then numbers, then text by its bytes. Rows with equal
  keys stay in the order in which they are stored, which is how SQLite returns them.
\<close>

fun sql_key :: "sql_value \<Rightarrow> nat \<times> int \<times> string" where
  "sql_key SqlNull = (0, 0, [])"
| "sql_key (SqlInt i) = (1, i, [])"
| "sql_key (SqlText s) = (2, 0, s)"

definition newest_first ::
    "(sql_value \<times> sql_value \<times> sql_value) list \<Rightarrow> (sql_value \<times> sql_value \<times> sql_value) list" where
  "newest_first t = rev (sort_key (\<lambda>(u, ti, v). sql_key v) (rev t))"

definition order_by_desc :: "(sql_value \<times> sql_value \<times> sql_value) list \<Rightarrow> row list" where
  "order_by_desc t = map (\<lambda>(u, ti, v). [u, ti, v]) (newest_first t)"

text \<open>\<open>LIMIT n\<close>: a negative \<open>n\<close> means no limit.\<close>

definition sql_limit :: "int \<Rightarrow> 'a list \<Rightarrow> 'a list" where
  "sql_limit n xs = (if n < 0 then xs else take (nat n) xs)"

text \<open>
  \<open>sqlite3.connect\<close>, \<open>execute\<close> and \<open>fetchall\<close> on a file with this content. A
  parameter outside the 64-bit range is refused by the binding.
\<close>

fun run_query :: "file_content \<Rightarrow> sql_query \<Rightarrow> int list \<Rightarrow> py_exception + row list" where
  "run_query NotADatabase q params = Inl (PyException ''file is not a database'')"
| "run_query (Database tabs) (SelectRecent t) params =
     (case map_of tabs t of
        None \<Rightarrow> Inl (PyException (''no such table: '' @ t))
      | Some rows \<Rightarrow>
          (case params of
             [limit] \<Rightarrow>
               (if limit < - (2 ^ 63) \<or> 2 ^ 63 \<le> limit
                then Inl (PyException ''Python int too large to convert to SQLite INTEGER'')
                else Inr (sql_limit limit (order_by_desc rows)))
           | _ \<Rightarrow> Inl (PyException ''Incorrect number of bindings supplied'')))"

text \<open>
  One entry of an event log, by the three attributes the program reads.

  \<open>EventID\<close>: absent, a value that \<open>int()\<close> converts to the given integer, or a value
  on which \<open>int()\<close> raises, given by its \<open>str()\<close> text and by the integer it is equal
  to under \<open>==\<close>, if there is one (\<open>4624+0j\<close> is equal to 4624; \<open>None\<close> and
  \<open>"abc"\<close> are equal to no integer). \<open>TimeGenerated\<close>: absent, an object with a \<open>Format\<close> method (whose call
  returns a text or raises), or an object without one, given by its \<open>str()\<close> text.
\<close>

datatype id_attr = NoEventID | IntID int | OtherID string "int option"

datatype time_attr = NoTime | HasFormat "py_exception + string" | NoFormat string

record event =
  EventID :: id_attr
  TimeGenerated :: time_attr
  SourceName :: "string option"

text \<open>
  The host as the program sees it. \<open>files\<close> are the regular files with their content,
  \<open>dirs\<close> the directories with what \<open>os.listdir\<close> does on them. \<open>mkstemp_result\<close>
  is what the next \<open>tempfile.mkstemp\<close> does: raise, or create a file whose name starts
  with the given text. \<open>copy_error\<close> and \<open>remove_error\<close> say for which paths reading
  the source of a copy, or removing a file, raises. \<open>open_event_log\<close> and
  \<open>read_event_log\<close> are \<open>win32evtlog.OpenEventLog\<close> and \<open>ReadEventLog\<close>.
\<close>

record host =
  home :: "string option"
  files :: "string \<Rightarrow> file_content option"
  dirs :: "string \<Rightarrow> (py_exception + string list) option"
  mkstemp_result :: "py_exception + string"
  copy_error :: "string \<Rightarrow> py_exception option"
  remove_error :: "string \<Rightarrow> py_exception option"
  open_event_log :: "string \<Rightarrow> py_exception + nat"
  read_event_log :: "nat \<Rightarrow> py_exception + event list"

definition path_exists :: "host \<Rightarrow> string \<Rightarrow> bool" where
  "path_exists h p = (files h p \<noteq> None \<or> dirs h p \<noteq> None)"

definition isfile :: "host \<Rightarrow> string \<Rightarrow> bool" where
  "isfile h p = (files h p \<noteq> None)"

definition isdir :: "host \<Rightarrow> string \<Rightarrow> bool" where
  "isdir h p = (dirs h p \<noteq> None)"

definition listdir :: "host \<Rightarrow> string \<Rightarrow> py_exception + string list" where
  "listdir h p =
     (case dirs h p of
        None \<Rightarrow> Inl (PyException ''The system cannot find the path specified'')
      | Some r \<Rightarrow> r)"

text \<open>\<open>os.path.expanduser\<close>: a leading \<open>~\<close> becomes the home directory, when there is one.\<close>

definition expanduser :: "host \<Rightarrow> string \<Rightarrow> string" where
  "expanduser h p =
     (case home h of
        None \<Rightarrow> p
      | Some d \<Rightarrow> (if take 1 p = ''~'' then d @ drop 1 p else p))"

text \<open>\<open>os.path.join\<close> of a directory and a plain name.\<close>

definition path_join :: "string \<Rightarrow> string \<Rightarrow> string" where
  "path_join a b =
     (if a = [] \<or> last a \<in> {CHR 0x5C, CHR ''/'', CHR '':''} then a @ b else a @ sep @ b)"

text \<open>\<open>os.path.basename\<close>: what follows the last separator.\<close>

definition basename :: "string \<Rightarrow> string" where
  "basename p = rev (takeWhile (\<lambda>c. c \<notin> {CHR 0x5C, CHR ''/'', CHR '':''}) (rev p))"

text \<open>
  \<open>tempfile.mkstemp(suffix=...)\<close> creates an empty file; \<open>shutil.copy2\<close> raises when the
  source cannot be read or is not a regular file, and otherwise gives the target the
  content of the source; \<open>os.remove\<close> raises when the file cannot be removed or is not
  there.
\<close>

definition mkstemp :: "host \<Rightarrow> string \<Rightarrow> py_exception + (string \<times> host)" where
  "mkstemp h suffix =
     (case mkstemp_result h of
        Inl e \<Rightarrow> Inl e
      | Inr stem \<Rightarrow> Inr (stem @ suffix, h\<lparr>files := (files h)(stem @ suffix \<mapsto> Database [])\<rparr>))"

definition copy2 :: "host \<Rightarrow> string \<Rightarrow> string \<Rightarrow> py_exception + host" where
  "copy2 h src dst =
     (case copy_error h src of
        Some e \<Rightarrow> Inl e
      | None \<Rightarrow>
          (case files h src of
             None \<Rightarrow> Inl (PyException ''Permission denied'')
           | Some c \<Rightarrow> Inr (h\<lparr>files := (files h)(dst \<mapsto> c)\<rparr>)))"

definition os_remove :: "host \<Rightarrow> string \<Rightarrow> py_exception + host" where
  "os_remove h p =
     (case remove_error h p of
        Some e \<Rightarrow> Inl e
      | None \<Rightarrow>
          (if files h p = None then Inl (PyException ''The system cannot find the file specified'')
           else Inr (h\<lparr>files := (files h)(p := None)\<rparr>)))"

definition sqlite_query :: "host \<Rightarrow> string \<Rightarrow> sql_query \<Rightarrow> int list \<Rightarrow> py_exception + row list" where
  "sqlite_query h p q params =
     (case files h p of
        None \<Rightarrow> Inl (PyException ''unable to open database file'')
      | Some f \<Rightarrow> run_query f q params)"

section \<open>Utility and data functions\<close>

text \<open>
  \<open>safe_copy_db(src_path)\<close>: the whole body is inside \<open>try\<close>, and every exception
  gives \<open>None\<close>. The host is returned as the calls have left it. (\<open>os.close\<close> on the
  descriptor that \<open>mkstemp\<close> has just opened does not raise.)
\<close>

definition safe_copy_db :: "host \<Rightarrow> string \<Rightarrow> string option \<times> host" where
  "safe_copy_db h src_path =
     (if \<not> path_exists h src_path then (None, h)
      else
        (case mkstemp h (basename src_path) of
           Inl e \<Rightarrow> (None, h)
         | Inr (tmp_path, h1) \<Rightarrow>
             (case copy2 h1 src_path tmp_path of
                Inl e \<Rightarrow> (None, h1)
              | Inr h2 \<Rightarrow> (Some tmp_path, h2))))"

text \<open>
  \<open>query_sqlite_file(db_path, query, params)\<close>: \<open>if not tmp\<close> holds for \<open>None\<close> and
  for the empty path; a failing query gives no rows; then the copy is removed, and a
  failure of the removal is ignored.
\<close>

definition query_sqlite_file :: "host \<Rightarrow> string \<Rightarrow> sql_query \<Rightarrow> int list \<Rightarrow> row list \<times> host" where
  "query_sqlite_file h db_path query params =
     (case safe_copy_db h db_path of
        (None, h1) \<Rightarrow> ([], h1)
      | (Some tmp, h1) \<Rightarrow>
          (if tmp = [] then ([], h1)
           else
             (let rows = (case sqlite_query h1 tmp query params of Inl e \<Rightarrow> [] | Inr rs \<Rightarrow> rs);
                  h2 = (case os_remove h1 tmp of Inl e \<Rightarrow> h1 | Inr h' \<Rightarrow> h')
              in (rows, h2))))"

definition recent_folder :: "host \<Rightarrow> string" where
  "recent_folder h =
     expanduser h (''~'' @ sep @ ''AppData'' @ sep @ ''Roaming'' @ sep @ ''Microsoft''
                   @ sep @ ''Windows'' @ sep @ ''Recent'')"

definition get_recent_files :: "host \<Rightarrow> int \<Rightarrow> string list" where
  "get_recent_files h limit =
     (if \<not> path_exists h (recent_folder h) then []
      else
        (case listdir h (recent_folder h) of
           Inl e \<Rightarrow> []
         | Inr names \<Rightarrow>
             (let entries = sorted_reverse names;
                  fs = filter (\<lambda>e. isfile h (path_join (recent_folder h) e)) entries
              in py_slice_to limit fs)))"

subsection \<open>Event logs\<close>

text \<open>
  The code an entry is filtered by: \<open>int(ev.EventID) & 0xFFFF\<close>, and when that raises,
  \<open>getattr(ev, "EventID", "unknown")\<close>: the raw value, or the text \<open>"unknown"\<close>, which
  is equal to no integer.
\<close>

datatype ev_code = Code int | RawCode string "int option"

fun event_code :: "id_attr \<Rightarrow> ev_code" where
  "event_code (IntID i) = Code (i AND 0xFFFF)"
| "event_code (OtherID s eq) = RawCode s eq"
| "event_code NoEventID = RawCode ''unknown'' None"

fun code_str :: "ev_code \<Rightarrow> string" where
  "code_str (Code i) = str_int i"
| "code_str (RawCode s eq) = s"

text \<open>
  \<open>event_ids is None or ev_id in event_ids\<close>: membership in the list is by \<open>==\<close>, so
  a raw value is in the list when the integer it is equal to is.
\<close>

fun selected :: "int list option \<Rightarrow> ev_code \<Rightarrow> bool" where
  "selected None c = True"
| "selected (Some ids) (Code i) = (i \<in> set ids)"
| "selected (Some ids) (RawCode s eq) = (case eq of None \<Rightarrow> False | Some k \<Rightarrow> k \<in> set ids)"

text \<open>\<open>ts.Format() if hasattr(ts, "Format") else str(ts)\<close>, with \<open>ts\<close> defaulting to \<open>None\<close>.\<close>

fun time_str :: "time_attr \<Rightarrow> py_exception + string" where
  "time_str NoTime = Inr ''None''"
| "time_str (HasFormat r) = r"
| "time_str (NoFormat s) = Inr s"

definition event_line :: "string \<Rightarrow> ev_code \<Rightarrow> event \<Rightarrow> string" where
  "event_line ts_str c ev =
     ts_str @ ''  |  EventID: '' @ code_str c @ ''  |  Source: ''
       @ (case SourceName ev of None \<Rightarrow> [] | Some s \<Rightarrow> s)"

text \<open>
  The loop over the entries that the one call of \<open>ReadEventLog\<close> has returned, with
  \<open>results\<close> and \<open>count\<close> as the loop carries them. It ends at the end of the list, at \<open>break\<close>, or with the exception an
  entry raises; the results collected so far are returned in each case.
\<close>

fun scan_events :: "int list option \<Rightarrow> int \<Rightarrow> event list \<Rightarrow> string list \<Rightarrow> int
    \<Rightarrow> string list \<times> py_exception option" where
  "scan_events event_ids max_events [] results count = (results, None)"
| "scan_events event_ids max_events (ev # evs) results count =
     (let ev_id = event_code (EventID ev) in
      if selected event_ids ev_id then
        (case time_str (TimeGenerated ev) of
           Inl e \<Rightarrow> (results, Some e)
         | Inr ts_str \<Rightarrow>
             (let results' = results @ [event_line ts_str ev_id ev];
                  count' = count + 1
              in if count' \<ge> max_events then (results', None)
                 else scan_events event_ids max_events evs results' count'))
      else scan_events event_ids max_events evs results count)"

definition get_event_logs :: "host \<Rightarrow> string \<Rightarrow> int list option \<Rightarrow> int \<Rightarrow> string list" where
  "get_event_logs h log_type event_ids max_events =
     (case open_event_log h log_type of
        Inl e \<Rightarrow> [''Fehler: '' @ exc_str e]
      | Inr handle \<Rightarrow>
          (case read_event_log h handle of
             Inl e \<Rightarrow> [] @ [''Fehler beim Lesen des EventLogs: '' @ exc_str e]
           | Inr events \<Rightarrow>
               (case scan_events event_ids max_events events [] 0 of
                  (results, None) \<Rightarrow> results
                | (results, Some e) \<Rightarrow> results @ [''Fehler beim Lesen des EventLogs: '' @ exc_str e])))"

subsection \<open>Browser histories\<close>

text \<open>
  The line of one row: \<open>url = r[0] if len(r) > 0 else ""\<close>, the same for the title at
  index 1, and \<open>f"{title or '\<emdash>'}  \<emdash>  {url}"\<close>.
\<close>

definition row_line :: "row \<Rightarrow> string" where
  "row_line r =
     (let url = (if length r > 0 then r ! 0 else SqlText []);
          title = (if length r > 1 then r ! 1 else SqlText [])
      in (if py_truthy title then py_str title else em_dash) @ ''  '' @ em_dash @ ''  '' @ py_str url)"

definition chrome_path :: "host \<Rightarrow> string" where
  "chrome_path h =
     expanduser h (''~'' @ sep @ ''AppData'' @ sep @ ''Local'' @ sep @ ''Google'' @ sep @ ''Chrome''
                   @ sep @ ''User Data'' @ sep @ ''Default'' @ sep @ ''History'')"

definition edge_path :: "host \<Rightarrow> string" where
  "edge_path h =
     expanduser h (''~'' @ sep @ ''AppData'' @ sep @ ''Local'' @ sep @ ''Microsoft'' @ sep @ ''Edge''
                   @ sep @ ''User Data'' @ sep @ ''Default'' @ sep @ ''History'')"

definition firefox_profiles :: "host \<Rightarrow> string" where
  "firefox_profiles h =
     expanduser h (''~'' @ sep @ ''AppData'' @ sep @ ''Roaming'' @ sep @ ''Mozilla'' @ sep @ ''Firefox''
                   @ sep @ ''Profiles'')"

definition get_chrome_history :: "host \<Rightarrow> int \<Rightarrow> string list \<times> host" where
  "get_chrome_history h limit =
     (if \<not> path_exists h (chrome_path h) then ([], h)
      else
        (case query_sqlite_file h (chrome_path h) (SelectRecent ''urls'') [limit] of
           (rows, h') \<Rightarrow> (map row_line rows, h')))"

definition get_edge_history :: "host \<Rightarrow> int \<Rightarrow> string list \<times> host" where
  "get_edge_history h limit =
     (if \<not> path_exists h (edge_path h) then ([], h)
      else
        (case query_sqlite_file h (edge_path h) (SelectRecent ''urls'') [limit] of
           (rows, h') \<Rightarrow> (map row_line rows, h')))"

definition get_firefox_history :: "host \<Rightarrow> int \<Rightarrow> string list \<times> host" where
  "get_firefox_history h limit =
     (if \<not> path_exists h (firefox_profiles h) then ([], h)
      else
        (case listdir h (firefox_profiles h) of
           Inl e \<Rightarrow> ([], h)
         | Inr names \<Rightarrow>
             (case filter (\<lambda>p. isdir h (path_join (firefox_profiles h) p)) names of
                [] \<Rightarrow> ([], h)
              | profile # _ \<Rightarrow>
                  (case query_sqlite_file h
                          (path_join (path_join (firefox_profiles h) profile) ''places.sqlite'')
                          (SelectRecent ''moz_places'') [limit] of
                     (rows, h') \<Rightarrow> (map row_line rows, h')))))"

subsection \<open>The export text\<close>



section \<open>Example hosts\<close>

text \<open>
  A host with a home directory and nothing else: no recent-items directory, no browser
  profile, and an event log that refuses to be opened.
\<close>

definition bare_host :: host where
  "bare_host =
     \<lparr>home = Some (''C:'' @ sep @ ''Users'' @ sep @ ''u''),
      files = Map.empty,
      dirs = Map.empty,
      mkstemp_result = Inr (''C:'' @ sep @ ''Temp'' @ sep @ ''tmp8x1''),
      copy_error = (\<lambda>p. None),
      remove_error = (\<lambda>p. None),
      open_event_log = (\<lambda>n. Inl (PyException ''Access is denied'')),
      read_event_log = (\<lambda>n. Inr [])\<rparr>"

text \<open>
  A host whose event log opens and whose one read returns the given entries, newest
  first.
\<close>

definition log_host :: "event list \<Rightarrow> host" where
  "log_host evs = bare_host\<lparr>open_event_log := (\<lambda>n. Inr 1), read_event_log := (\<lambda>hnd. Inr evs)\<rparr>"

definition sample_event :: "int \<Rightarrow> event" where
  "sample_event i =
     \<lparr>EventID = IntID i, TimeGenerated = HasFormat (Inr ''01/02/24 10:00:00''),
      SourceName = Some ''EventLog''\<rparr>"

text \<open>An entry whose time stamp cannot be formatted.\<close>

definition bad_time_event :: "int \<Rightarrow> event" where
  "bad_time_event i =
     \<lparr>EventID = IntID i, TimeGenerated = HasFormat (Inl (PyException ''year out of range'')),
      SourceName = Some ''EventLog''\<rparr>"

text \<open>
  The example of the specification: a recent-items directory with the files \<open>b.txt\<close>
  and \<open>a.txt\<close> and the subdirectory \<open>c\<close>.
\<close>

definition recent_host :: host where
  "recent_host = bare_host
     \<lparr>files := [path_join (recent_folder bare_host) ''a.txt'' \<mapsto> NotADatabase,
                 path_join (recent_folder bare_host) ''b.txt'' \<mapsto> NotADatabase],
      dirs := [recent_folder bare_host \<mapsto> Inr [''a.txt'', ''c'', ''b.txt''],
               path_join (recent_folder bare_host) ''c'' \<mapsto> Inr []]\<rparr>"

text \<open>
  Hosts with browser profiles: a Chrome history with two visits, the same with a source
  that cannot be read by the copy, and one where every history store is corrupt or
  empty. \<open>temp_path\<close> is the file \<open>mkstemp\<close> creates for a source named
  \<open>History\<close>.
\<close>

definition temp_path :: string where
  "temp_path = ''C:'' @ sep @ ''Temp'' @ sep @ ''tmp8x1History''"

definition sample_urls :: file_content where
  "sample_urls =
     Database [(''urls'',
        [(SqlText ''https://a.example/'', SqlText ''Alpha'', SqlInt 2),
         (SqlText ''https://b.example/'', SqlText [], SqlInt 5)])]"

definition chrome_host :: host where
  "chrome_host = bare_host\<lparr>files := [chrome_path bare_host \<mapsto> sample_urls]\<rparr>"

definition unreadable_host :: host where
  "unreadable_host = chrome_host
     \<lparr>copy_error := (\<lambda>p. if p = chrome_path bare_host then Some (PyException ''Permission denied'') else None)\<rparr>"

definition firefox_places :: string where
  "firefox_places =
     path_join (path_join (firefox_profiles bare_host) ''x1.default'') ''places.sqlite''"

definition corrupt_host :: host where
  "corrupt_host = bare_host
     \<lparr>files := [chrome_path bare_host \<mapsto> NotADatabase,
                 edge_path bare_host \<mapsto> Database [],
                 firefox_places \<mapsto> NotADatabase],
      dirs := [firefox_profiles bare_host \<mapsto> Inr [''x1.default''],
               path_join (firefox_profiles bare_host) ''x1.default'' \<mapsto> Inr [''places.sqlite'']]\<rparr>"

text \<open>A host on which the requested event-log channel does not exist.\<close>

definition no_channel_host :: host where
  "no_channel_host = bare_host
     \<lparr>open_event_log := (\<lambda>n. Inl (PyException ''The specified channel could not be found''))\<rparr>"


section \<open>Notions used to state the properties\<close>

text \<open>
  An entry matches when its code passes the filter; it renders when its time stamp has a
  text; its record is the line the scan appends for it.
\<close>

definition matching :: "int list option \<Rightarrow> event \<Rightarrow> bool" where
  "matching ids ev = selected ids (event_code (EventID ev))"

definition renders :: "event \<Rightarrow> bool" where
  "renders ev = (case time_str (TimeGenerated ev) of Inl e \<Rightarrow> False | Inr s \<Rightarrow> True)"

definition event_record :: "event \<Rightarrow> string" where
  "event_record ev =
     event_line (case time_str (TimeGenerated ev) of Inl e \<Rightarrow> [] | Inr s \<Rightarrow> s)
                (event_code (EventID ev)) ev"

definition read_diagnostic :: "py_exception \<Rightarrow> string" where
  "read_diagnostic e = ''Fehler beim Lesen des EventLogs: '' @ exc_str e"

text \<open>
  The lines of a text, as \<open>text.split("\\n")\<close> gives them, and the shape of the
  export text: a title line, an empty line, and for each section its header, its records
  or the placeholder, and an empty line.
\<close>

fun split_on :: "char \<Rightarrow> string \<Rightarrow> string list" where
  "split_on c [] = [[]]"
| "split_on c (x # xs) =
     (if x = c then [] # split_on c xs
      else (case split_on c xs of [] \<Rightarrow> [[x]] | l # ls \<Rightarrow> (x # l) # ls))"













section \<open>Event-log extraction\<close>

text \<open>
  C3. When the channel cannot be opened (\<open>OpenEventLog\<close> raises), \<open>get_event_logs\<close>
  returns exactly one record, the diagnostic line with the text of the failure, for every
  channel name, filter and limit; the result is never empty.
\<close>

theorem get_event_logs_open_failure:
  assumes "open_event_log h log_type = Inl e"
  shows "get_event_logs h log_type event_ids max_events = [''Fehler: '' @ exc_str e]
         \<and> length (get_event_logs h log_type event_ids max_events) = 1
         \<and> get_event_logs h log_type event_ids max_events \<noteq> []"
  using assms by (simp add: get_event_logs_def)

theorem get_event_logs_open_failure_witness:
  "open_event_log bare_host ''Security'' = Inl (PyException ''Access is denied'')
   \<and> get_event_logs bare_host ''Security'' (Some [4624, 4634]) 80 = [''Fehler: Access is denied'']"
  using get_event_logs_open_failure [of bare_host "''Security''" "PyException ''Access is denied''" "Some [4624, 4634]" 80]
  by (simp add: bare_host_def)

subsection \<open>The scan\<close>

lemma scan_events_all_render:
  assumes "\<forall>ev\<in>set evs. matching ids ev \<longrightarrow> renders ev" and "count < m"
  shows "scan_events ids m evs results count =
           (results @ map event_record (take (nat (m - count)) (filter (matching ids) evs)), None)"
  using assms
proof (induction evs arbitrary: results count)
  case Nil
  then show ?case by simp
next
  case (Cons ev evs)
  show ?case
  proof (cases "matching ids ev")
    case False
    with Cons show ?thesis by (simp add: matching_def)
  next
    case True
    with Cons.prems obtain s where s: "time_str (TimeGenerated ev) = Inr s"
      by (auto simp: renders_def split: sum.splits)
    have rec: "event_record ev = event_line s (event_code (EventID ev)) ev"
      by (simp add: event_record_def s)
    from True have sel: "selected ids (event_code (EventID ev))"
      by (simp add: matching_def)
    show ?thesis
    proof (cases "count + 1 \<ge> m")
      case True
      with Cons.prems have "nat (m - count) = Suc 0" by simp
      with True sel \<open>matching ids ev\<close> show ?thesis
        using s rec by simp
    next
      case False
      then have lt: "count + 1 < m" by simp
      have n: "nat (m - count) = Suc (nat (m - (count + 1)))" using lt by simp
      have ih: "scan_events ids m evs (results @ [event_record ev]) (count + 1) =
          ((results @ [event_record ev]) @ map event_record (take (nat (m - (count + 1))) (filter (matching ids) evs)), None)"
        using Cons.IH [OF _ lt] Cons.prems(1) by simp
      show ?thesis
        using False \<open>matching ids ev\<close> sel s rec ih n by simp
    qed
  qed
qed

lemma scan_events_length:
  assumes "count < m" and "scan_events ids m evs results count = (rs, eo)"
  shows "int (length rs) \<le> int (length results) + (m - count)
         \<and> (eo \<noteq> None \<longrightarrow> int (length rs) < int (length results) + (m - count))"
  using assms
proof (induction evs arbitrary: results count)
  case Nil
  then show ?case by auto
next
  case (Cons ev evs)
  show ?case
  proof (cases "selected ids (event_code (EventID ev))")
    case False
    with Cons show ?thesis by simp
  next
    case True
    show ?thesis
    proof (cases "time_str (TimeGenerated ev)")
      case (Inl e)
      with True Cons.prems show ?thesis by auto
    next
      case (Inr s)
      show ?thesis
      proof (cases "count + 1 \<ge> m")
        case True
        with \<open>selected ids (event_code (EventID ev))\<close> Inr Cons.prems show ?thesis by auto
      next
        case False
        then have lt: "count + 1 < m" by simp
        from False \<open>selected ids (event_code (EventID ev))\<close> Inr Cons.prems(2)
        have "scan_events ids m evs (results @ [event_line s (event_code (EventID ev)) ev]) (count + 1) = (rs, eo)"
          by simp
        from Cons.IH [OF lt this] show ?thesis by auto
      qed
    qed
  qed
qed

lemma scan_events_at_limit:
  assumes "m \<le> count" and "scan_events ids m evs results count = (rs, eo)"
  shows "rs = results \<or> (\<exists>l. rs = results @ [l] \<and> eo = None)"
  using assms
proof (induction evs arbitrary: results count)
  case Nil
  then show ?case by auto
next
  case (Cons ev evs)
  then show ?case
    by (auto simp: Let_def split: if_splits sum.splits)
qed

lemma get_event_logs_length:
  "length (get_event_logs h log_type ids m) \<le> nat (max 1 m)"
proof (cases "open_event_log h log_type")
  case (Inl e)
  then show ?thesis by (simp add: get_event_logs_def)
next
  case (Inr hnd)
  show ?thesis
  proof (cases "read_event_log h hnd")
    case (Inl e)
    with Inr show ?thesis by (simp add: get_event_logs_def)
  next
    case evs: (Inr evs)
    obtain rs eo where sc: "scan_events ids m evs [] 0 = (rs, eo)" by force
    show ?thesis
    proof (cases "0 < m")
      case True
      from scan_events_length [OF True sc] have "int (length rs) \<le> m" "eo \<noteq> None \<longrightarrow> int (length rs) < m"
        by auto
      with Inr evs sc True show ?thesis
        by (cases eo) (auto simp: get_event_logs_def)
    next
      case False
      then have "m \<le> 0" by simp
      from scan_events_at_limit [OF this sc] have "rs = [] \<or> (\<exists>l. rs = [l] \<and> eo = None)" by simp
      with Inr evs sc False show ?thesis
        by (cases eo) (auto simp: get_event_logs_def)
    qed
  qed
qed

lemma scan_events_fails_partway:
  assumes "\<forall>ev\<in>set pre. matching ids ev \<longrightarrow> renders ev"
    and "int (length (filter (matching ids) pre)) < m - count"
    and "matching ids ev" and "time_str (TimeGenerated ev) = Inl e"
  shows "scan_events ids m (pre @ ev # post) results count =
           (results @ map event_record (filter (matching ids) pre), Some e)"
  using assms(1,2)
proof (induction pre arbitrary: results count)
  case Nil
  then show ?case using assms(3,4) by (simp add: matching_def)
next
  case (Cons a pre)
  show ?case
  proof (cases "matching ids a")
    case False
    with Cons show ?thesis by (simp add: matching_def)
  next
    case True
    with Cons.prems obtain s where s: "time_str (TimeGenerated a) = Inr s"
      by (auto simp: renders_def split: sum.splits)
    have rec: "event_record a = event_line s (event_code (EventID a)) a"
      by (simp add: event_record_def s)
    from True Cons.prems(2) have lt: "int (length (filter (matching ids) pre)) < m - (count + 1)" by simp
    then have nb: "\<not> count + 1 \<ge> m" by simp
    have ih: "scan_events ids m (pre @ ev # post) (results @ [event_record a]) (count + 1) =
           ((results @ [event_record a]) @ map event_record (filter (matching ids) pre), Some e)"
      using Cons.IH [OF _ lt] Cons.prems(1) by simp
    from True have sel: "selected ids (event_code (EventID a))"
      by (simp add: matching_def)
    show ?thesis using True sel s rec nb ih by simp
  qed
qed

subsection \<open>Filtering and the bounded scan\<close>

text \<open>
  When the channel opens, the read succeeds, every matching entry renders and the limit
  is at least 1, the result is the records of the first \<open>max_events\<close> matching
  entries, in the order of the channel: only matching entries are included, the order
  is kept, and nothing after the last needed match is looked at.
\<close>

lemma get_event_logs_bounded_scan:
  assumes "open_event_log h log_type = Inr hnd" and "read_event_log h hnd = Inr evs"
    and "\<forall>ev\<in>set evs. matching ids ev \<longrightarrow> renders ev" and "1 \<le> m"
  shows "get_event_logs h log_type ids m =
           map event_record (take (nat m) (filter (matching ids) evs))"
proof -
  from assms(4) have "0 < m" by simp
  from scan_events_all_render [OF assms(3) this, of "[]"] assms(1,2)
  show ?thesis by (simp add: get_event_logs_def)
qed

text \<open>The example of the specification: codes 1, 2, 3, 1, 2, filter {1, 2}, limit 3.\<close>

lemma get_event_logs_spec_example:
  "get_event_logs (log_host (map sample_event [1, 2, 3, 1, 2])) ''System'' (Some [1, 2]) 3
     = map event_record [sample_event 1, sample_event 2, sample_event 1]"
  by (simp add: get_event_logs_def log_host_def bare_host_def sample_event_def event_line_def
      event_record_def)

text \<open>
  C5. The scan includes an entry only when its code passes the filter, keeps the order
  of the channel, and should stop as soon as \<open>max_events\<close> matching entries are
  accumulated. The limit is tested only after an entry has been appended, so with
  \<open>max_events = 0\<close> the scan does not stop at once: on the channel with the codes
  1, 2, 3, 1, 2 and the filter {1, 2} it returns one record instead of none.
\<close>

theorem get_event_logs_limit_zero:
  "get_event_logs (log_host (map sample_event [1, 2, 3, 1, 2])) ''System'' (Some [1, 2]) 0
     = [''01/02/24 10:00:00  |  EventID: 1  |  Source: EventLog'']
   \<and> length (get_event_logs (log_host (map sample_event [1, 2, 3, 1, 2])) ''System'' (Some [1, 2]) 0) = 1"
  by (simp add: get_event_logs_def log_host_def bare_host_def sample_event_def event_line_def
      str_int_def digits.simps digit_char_def)

subsection \<open>The code of an entry\<close>


subsection \<open>Failures after the channel was opened\<close>

text \<open>
  C10, as stated, lets the length reach \<open>max_events + 1\<close>. With \<open>max_events = 1\<close>
  no host, channel name or filter gives two items.
\<close>

theorem length_never_exceeds_limit_one:
  "\<not> (\<exists>h log_type ids. length (get_event_logs h log_type ids 1) = 1 + 1)"
proof
  assume "\<exists>h log_type ids. length (get_event_logs h log_type ids 1) = 1 + 1"
  then obtain h log_type ids where "length (get_event_logs h log_type ids 1) = 1 + 1" by blast
  moreover have "length (get_event_logs h log_type ids 1) \<le> nat (max 1 1)"
    by (rule get_event_logs_length)
  ultimately show False by simp
qed

text \<open>
  C10, amended. When the channel was opened and the read raises, the result is the one
  diagnostic line. When an entry raises during the scan, after fewer than
  \<open>max_events\<close> matching entries, the result is the records accumulated so far
  followed by one diagnostic line, so records and a diagnostic can be mixed. The length
  is at most \<open>max 1 max_events\<close>: it never exceeds \<open>max_events\<close> when that is at
  least 1, because the scan ends as soon as \<open>max_events\<close> records are accumulated.
\<close>

theorem get_event_logs_read_failure:
  assumes "open_event_log h log_type = Inr hnd"
  shows "(read_event_log h hnd = Inl e \<longrightarrow> get_event_logs h log_type ids m = [read_diagnostic e])
     \<and> (read_event_log h hnd = Inr (pre @ ev # post)
          \<and> (\<forall>x\<in>set pre. matching ids x \<longrightarrow> renders x)
          \<and> int (length (filter (matching ids) pre)) < m
          \<and> matching ids ev \<and> time_str (TimeGenerated ev) = Inl e
        \<longrightarrow> get_event_logs h log_type ids m
              = map event_record (filter (matching ids) pre) @ [read_diagnostic e])
     \<and> length (get_event_logs h log_type ids m) \<le> nat (max 1 m)"
proof (intro conjI impI)
  assume "read_event_log h hnd = Inl e"
  with assms show "get_event_logs h log_type ids m = [read_diagnostic e]"
    by (simp add: get_event_logs_def read_diagnostic_def)
next
  assume a: "read_event_log h hnd = Inr (pre @ ev # post)
          \<and> (\<forall>x\<in>set pre. matching ids x \<longrightarrow> renders x)
          \<and> int (length (filter (matching ids) pre)) < m
          \<and> matching ids ev \<and> time_str (TimeGenerated ev) = Inl e"
  then have "scan_events ids m (pre @ ev # post) [] 0 =
           ([] @ map event_record (filter (matching ids) pre), Some e)"
    by (intro scan_events_fails_partway) auto
  with a assms show "get_event_logs h log_type ids m
              = map event_record (filter (matching ids) pre) @ [read_diagnostic e]"
    by (simp add: get_event_logs_def read_diagnostic_def)
next
  show "length (get_event_logs h log_type ids m) \<le> nat (max 1 m)"
    by (rule get_event_logs_length)
qed

theorem get_event_logs_read_failure_witness:
  "open_event_log (log_host [sample_event 1, bad_time_event 2, sample_event 1]) ''System'' = Inr 1
   \<and> get_event_logs (log_host [sample_event 1, bad_time_event 2, sample_event 1]) ''System'' None 5
        = [''01/02/24 10:00:00  |  EventID: 1  |  Source: EventLog'',
           ''Fehler beim Lesen des EventLogs: year out of range'']
   \<and> length (get_event_logs (log_host [sample_event 1, bad_time_event 2, sample_event 1]) ''System'' None 5) \<le> 5"
  using get_event_logs_read_failure [of "log_host [sample_event 1, bad_time_event 2, sample_event 1]"
      "''System''" 1 "PyException ''year out of range''" None 5 "[sample_event 1]" "bad_time_event 2" "[sample_event 1]"]
  by (simp add: log_host_def bare_host_def sample_event_def bad_time_event_def matching_def
      renders_def event_record_def read_diagnostic_def event_line_def str_int_def digits.simps digit_char_def)

section \<open>Recent files\<close>

lemma sort_snoc: "sort (xs @ [y]) = insort y (sort xs)"
  by (induction xs) (simp_all add: insort_left_comm)

lemma sort_rev: "sort (rev xs) = sort xs"
  by (induction xs) (simp_all add: sort_snoc)

lemma sorted_reverse_eq: "sorted_reverse xs = rev (sort xs)"
  by (simp add: sorted_reverse_def sort_rev)

lemma filter_sorted_reverse:
  "filter P (sorted_reverse xs) = rev (sort (filter P xs))"
  by (simp add: sorted_reverse_eq rev_filter [symmetric] filter_sort)

lemma sorted_rev_take_rev_sort: "sorted (rev (take n (rev (sort xs))))"
  by (simp add: rev_take sorted_wrt_drop)

text \<open>
  C7. When the recent-items directory can be listed and the limit is not negative,
  \<open>get_recent_files\<close> returns the names of the directory's regular files in
  descending lexicographic order, cut to the first \<open>limit\<close>: the result is sorted
  downwards, holds only names of regular files of the listing, and has
  \<open>min limit n\<close> items when the directory has \<open>n\<close> regular files. The witness is
  the directory with \<open>b.txt\<close>, \<open>a.txt\<close> and the subdirectory \<open>c\<close> at limit 10.
\<close>

theorem get_recent_files_sorted_regular_truncated:
  assumes "dirs h (recent_folder h) = Some (Inr names)" and "0 \<le> limit"
  shows "get_recent_files h limit =
           take (nat limit) (rev (sort (filter (\<lambda>e. isfile h (path_join (recent_folder h) e)) names)))
         \<and> sorted (rev (get_recent_files h limit))
         \<and> set (get_recent_files h limit) \<subseteq> {e \<in> set names. isfile h (path_join (recent_folder h) e)}
         \<and> length (get_recent_files h limit) =
             min (nat limit) (length (filter (\<lambda>e. isfile h (path_join (recent_folder h) e)) names))"
proof -
  let ?P = "\<lambda>e. isfile h (path_join (recent_folder h) e)"
  have eq: "get_recent_files h limit = take (nat limit) (rev (sort (filter ?P names)))"
    using assms
    by (simp add: get_recent_files_def path_exists_def listdir_def py_slice_to_def
        filter_sorted_reverse)
  have sub: "set (take (nat limit) (rev (sort (filter ?P names)))) \<subseteq> set (rev (sort (filter ?P names)))"
    by (rule set_take_subset)
  show ?thesis
    unfolding eq using sub by (auto simp: sorted_rev_take_rev_sort min_def)
qed

theorem get_recent_files_sorted_regular_truncated_witness:
  "dirs recent_host (recent_folder recent_host) = Some (Inr [''a.txt'', ''c'', ''b.txt''])
   \<and> (0::int) \<le> 10
   \<and> isfile recent_host (path_join (recent_folder recent_host) ''a.txt'')
   \<and> isfile recent_host (path_join (recent_folder recent_host) ''b.txt'')
   \<and> \<not> isfile recent_host (path_join (recent_folder recent_host) ''c'')
   \<and> get_recent_files recent_host 10 = [''b.txt'', ''a.txt'']"
  using get_recent_files_sorted_regular_truncated [of recent_host "[''a.txt'', ''c'', ''b.txt'']" 10]
  by (simp add: recent_host_def bare_host_def recent_folder_def expanduser_def path_join_def
      sep_def isfile_def)

section \<open>Snapshots and browser histories\<close>

lemma run_query_length:
  assumes "run_query f q [limit] = Inr rs" and "0 \<le> limit"
  shows "length rs \<le> nat limit"
proof (cases f)
  case NotADatabase
  with assms show ?thesis by simp
next
  case (Database tabs)
  obtain t where q: "q = SelectRecent t" by (cases q)
  from assms Database q show ?thesis
    by (auto simp: sql_limit_def split: option.splits if_splits)
qed

lemma query_sqlite_file_length:
  assumes "0 \<le> limit"
  shows "length (fst (query_sqlite_file h p q [limit])) \<le> nat limit"
proof (cases "safe_copy_db h p")
  case (Pair tmp h1)
  show ?thesis
  proof (cases tmp)
    case None
    with Pair show ?thesis by (simp add: query_sqlite_file_def)
  next
    case (Some t)
    show ?thesis
    proof (cases "sqlite_query h1 t q [limit]")
      case (Inl e)
      with Pair Some show ?thesis by (simp add: query_sqlite_file_def Let_def)
    next
      case (Inr rs)
      then have "length rs \<le> nat limit"
        using assms run_query_length
        by (auto simp: sqlite_query_def split: option.splits)
      with Pair Some Inr show ?thesis by (simp add: query_sqlite_file_def Let_def)
    qed
  qed
qed

lemma safe_copy_db_absent: "\<not> path_exists h p \<Longrightarrow> safe_copy_db h p = (None, h)"
  by (simp add: safe_copy_db_def)

lemma query_sqlite_file_absent: "\<not> path_exists h p \<Longrightarrow> query_sqlite_file h p q ps = ([], h)"
  by (simp add: query_sqlite_file_def safe_copy_db_absent)

lemma run_query_no_tables: "\<exists>e. run_query (Database []) q ps = Inl e"
  by (cases q) simp

lemma query_sqlite_file_unreadable:
  assumes "files h p = Some f" and "run_query f q ps = Inl e"
  shows "fst (query_sqlite_file h p q ps) = []"
proof (cases "safe_copy_db h p")
  case (Pair tmp h1)
  show ?thesis
  proof (cases tmp)
    case None
    with Pair show ?thesis by (simp add: query_sqlite_file_def)
  next
    case (Some t)
    from Pair Some assms(1) have "files h1 t = Some f \<or> files h1 t = Some (Database [])"
      by (auto simp: safe_copy_db_def mkstemp_def copy2_def path_exists_def
          split: if_splits sum.splits option.splits)
    then have "\<exists>e'. sqlite_query h1 t q ps = Inl e'"
      using assms(2) run_query_no_tables [of q ps] by (auto simp: sqlite_query_def)
    with Pair Some show ?thesis by (auto simp: query_sqlite_file_def Let_def)
  qed
qed

lemma query_sqlite_file_removes_copy:
  assumes "safe_copy_db h p = (Some tmp, h1)" and "remove_error h tmp = None" and "tmp \<noteq> []"
  shows "files (snd (query_sqlite_file h p q ps)) tmp = None"
proof -
  from assms(1) have "files h1 tmp \<noteq> None" and "remove_error h1 = remove_error h"
    by (auto simp: safe_copy_db_def mkstemp_def copy2_def split: if_splits sum.splits option.splits)
  with assms show ?thesis
    by (auto simp: query_sqlite_file_def Let_def os_remove_def)
qed

lemma get_recent_files_length: "0 \<le> limit \<Longrightarrow> length (get_recent_files h limit) \<le> nat limit"
  by (simp add: get_recent_files_def py_slice_to_def Let_def split: sum.splits)

lemma fst_get_chrome_history:
  "fst (get_chrome_history h limit) =
     (if \<not> path_exists h (chrome_path h) then []
      else map row_line (fst (query_sqlite_file h (chrome_path h) (SelectRecent ''urls'') [limit])))"
  by (simp add: get_chrome_history_def split: prod.splits)

lemma fst_get_edge_history:
  "fst (get_edge_history h limit) =
     (if \<not> path_exists h (edge_path h) then []
      else map row_line (fst (query_sqlite_file h (edge_path h) (SelectRecent ''urls'') [limit])))"
  by (simp add: get_edge_history_def split: prod.splits)

lemma fst_get_firefox_history:
  "fst (get_firefox_history h limit) =
     (if \<not> path_exists h (firefox_profiles h) then []
      else
        (case listdir h (firefox_profiles h) of
           Inl e \<Rightarrow> []
         | Inr names \<Rightarrow>
             (case filter (\<lambda>p. isdir h (path_join (firefox_profiles h) p)) names of
                [] \<Rightarrow> []
              | profile # rest \<Rightarrow>
                  map row_line (fst (query_sqlite_file h
                          (path_join (path_join (firefox_profiles h) profile) ''places.sqlite'')
                          (SelectRecent ''moz_places'') [limit])))))"
  by (simp add: get_firefox_history_def split: prod.splits sum.splits list.splits)

lemma get_chrome_history_length: "0 \<le> limit \<Longrightarrow> length (fst (get_chrome_history h limit)) \<le> nat limit"
  by (simp add: fst_get_chrome_history query_sqlite_file_length)

lemma get_edge_history_length: "0 \<le> limit \<Longrightarrow> length (fst (get_edge_history h limit)) \<le> nat limit"
  by (simp add: fst_get_edge_history query_sqlite_file_length)

lemma get_firefox_history_length: "0 \<le> limit \<Longrightarrow> length (fst (get_firefox_history h limit)) \<le> nat limit"
  by (simp add: fst_get_firefox_history query_sqlite_file_length split: sum.splits list.splits)

lemmas path_defs = chrome_path_def edge_path_def firefox_profiles_def recent_folder_def
  expanduser_def path_join_def sep_def basename_def

text \<open>The lines of a history with two visits, the newest first; an empty title gives a dash.\<close>

lemma get_chrome_history_sample:
  "get_chrome_history chrome_host 10 = ([em_dash @ ''  '' @ em_dash @ ''  https://b.example/'', ''Alpha  '' @ em_dash @ ''  https://a.example/''], chrome_host)"
  by (simp add: get_chrome_history_def chrome_host_def bare_host_def path_defs path_exists_def
      query_sqlite_file_def safe_copy_db_def mkstemp_def copy2_def sqlite_query_def os_remove_def
      sample_urls_def sql_limit_def order_by_desc_def newest_first_def row_line_def Let_def)

text \<open>
  C2. Every temporary file that \<open>safe_copy_db\<close> allocates should be gone when the
  extraction returns. \<open>query_sqlite_file\<close> removes the copy it was given, whether the
  query succeeds or fails (\<open>query_sqlite_file_removes_copy\<close>). But when the copy itself
  fails, \<open>safe_copy_db\<close> returns \<open>None\<close> after \<open>mkstemp\<close> has created the file,
  and nothing removes it: on a host where the Chrome history exists and cannot be read,
  the file that was not there before is there after \<open>safe_copy_db\<close>, and after
  \<open>get_chrome_history\<close>.
\<close>

theorem safe_copy_db_leaves_temp_file:
  "files unreadable_host temp_path = None
   \<and> fst (safe_copy_db unreadable_host (chrome_path unreadable_host)) = None
   \<and> files (snd (safe_copy_db unreadable_host (chrome_path unreadable_host))) temp_path = Some (Database [])
   \<and> fst (get_chrome_history unreadable_host 10) = []
   \<and> files (snd (get_chrome_history unreadable_host 10)) temp_path = Some (Database [])"
  by (simp add: get_chrome_history_def unreadable_host_def chrome_host_def bare_host_def path_defs path_exists_def
      query_sqlite_file_def safe_copy_db_def mkstemp_def copy2_def temp_path_def)

section \<open>Bounds and absent sources\<close>

text \<open>
  C1, as stated, bounds the length of every extractor's result by the limit. With
  limit 0 and an event log that cannot be opened, \<open>get_event_logs\<close> returns one item.
\<close>

theorem length_bound_fails_at_limit_zero:
  "\<not> length (get_event_logs bare_host ''Security'' (Some [4624, 4634]) 0) \<le> nat 0"
  by (simp add: get_event_logs_def bare_host_def)

text \<open>
  C1, amended. For every limit that is not negative, \<open>get_recent_files\<close> and the three
  browser extractors return at most \<open>limit\<close> items, and none at limit 0.
  \<open>get_event_logs\<close> returns at most \<open>max_events\<close> items, diagnostics included,
  when \<open>max_events\<close> is at least 1; when the channel cannot be opened it returns the
  one diagnostic record whatever the limit.
\<close>

theorem extractor_length_bounds:
  "(0 \<le> limit \<longrightarrow>
       length (get_recent_files h limit) \<le> nat limit
     \<and> length (fst (get_chrome_history h limit)) \<le> nat limit
     \<and> length (fst (get_edge_history h limit)) \<le> nat limit
     \<and> length (fst (get_firefox_history h limit)) \<le> nat limit)
   \<and> (limit = 0 \<longrightarrow>
       get_recent_files h limit = [] \<and> fst (get_chrome_history h limit) = []
     \<and> fst (get_edge_history h limit) = [] \<and> fst (get_firefox_history h limit) = [])
   \<and> (1 \<le> limit \<longrightarrow> length (get_event_logs h log_type ids limit) \<le> nat limit)
   \<and> (open_event_log h log_type = Inl e \<longrightarrow>
         get_event_logs h log_type ids limit = [''Fehler: '' @ exc_str e])"
proof (intro conjI impI)
  assume "1 \<le> limit"
  then show "length (get_event_logs h log_type ids limit) \<le> nat limit"
    using get_event_logs_length [of h log_type ids limit] by (simp add: max_def)
next
  assume "open_event_log h log_type = Inl e"
  then show "get_event_logs h log_type ids limit = [''Fehler: '' @ exc_str e]"
    by (simp add: get_event_logs_def)
next
  assume "limit = 0"
  then show "get_recent_files h limit = []"
    using get_recent_files_length [of limit h] by simp
next
  assume "limit = 0"
  then show "fst (get_chrome_history h limit) = []"
    using get_chrome_history_length [of limit h] by simp
next
  assume "limit = 0"
  then show "fst (get_edge_history h limit) = []"
    using get_edge_history_length [of limit h] by simp
next
  assume "limit = 0"
  then show "fst (get_firefox_history h limit) = []"
    using get_firefox_history_length [of limit h] by simp
qed (simp_all add: get_recent_files_length get_chrome_history_length get_edge_history_length
    get_firefox_history_length)

theorem extractor_length_bounds_witness:
  "(0::int) \<le> 1 \<and> (1::int) \<le> 1
   \<and> length (fst (get_chrome_history chrome_host 1)) \<le> 1
   \<and> fst (get_chrome_history chrome_host 1) = [em_dash @ ''  '' @ em_dash @ ''  https://b.example/'']
   \<and> fst (get_chrome_history chrome_host 0) = []
   \<and> length (get_recent_files recent_host 1) \<le> 1
   \<and> length (get_event_logs (log_host (map sample_event [1, 2, 3, 1, 2])) ''System'' (Some [1, 2]) 1) \<le> 1
   \<and> open_event_log bare_host ''System'' = Inl (PyException ''Access is denied'')
   \<and> get_event_logs bare_host ''System'' None 1 = [''Fehler: Access is denied'']"
  using extractor_length_bounds [of 1 chrome_host "''System''" None "PyException ''Access is denied''"]
    extractor_length_bounds [of 1 recent_host "''System''" None "PyException ''Access is denied''"]
    extractor_length_bounds [of 1 "log_host (map sample_event [1, 2, 3, 1, 2])" "''System''" "Some [1, 2]" "PyException ''Access is denied''"]
    extractor_length_bounds [of 1 bare_host "''System''" None "PyException ''Access is denied''"]
    extractor_length_bounds [of 0 chrome_host "''System''" None "PyException ''Access is denied''"]
  by (simp add: get_chrome_history_def chrome_host_def bare_host_def path_defs path_exists_def
      query_sqlite_file_def safe_copy_db_def mkstemp_def copy2_def sqlite_query_def os_remove_def
      sample_urls_def sql_limit_def order_by_desc_def newest_first_def row_line_def Let_def)

text \<open>
  C4, as stated, gives an empty result for every absent source. For a channel that does
  not exist the result is not empty.
\<close>

theorem absent_channel_gives_diagnostic:
  "get_event_logs no_channel_host ''Setup'' None 50 \<noteq> []"
  by (simp add: get_event_logs_def no_channel_host_def bare_host_def)

text \<open>
  C4, amended. When the recent-items directory, a browser's history file, the Firefox
  profile directory or the chosen profile's \<open>places.sqlite\<close> does not exist, the
  extractor returns the empty list and leaves the host as it was. When a log channel
  does not exist, so that opening it raises, \<open>get_event_logs\<close> returns the one
  diagnostic record. The model functions are total: no exception leaves an extractor.
\<close>

theorem absent_source_results:
  "(\<not> path_exists h (recent_folder h) \<longrightarrow> get_recent_files h limit = [])
   \<and> (\<not> path_exists h (chrome_path h) \<longrightarrow> get_chrome_history h limit = ([], h))
   \<and> (\<not> path_exists h (edge_path h) \<longrightarrow> get_edge_history h limit = ([], h))
   \<and> (\<not> path_exists h (firefox_profiles h) \<longrightarrow> get_firefox_history h limit = ([], h))
   \<and> (listdir h (firefox_profiles h) = Inr names
        \<and> filter (\<lambda>p. isdir h (path_join (firefox_profiles h) p)) names = profile # rest
        \<and> \<not> path_exists h (path_join (path_join (firefox_profiles h) profile) ''places.sqlite'')
       \<longrightarrow> get_firefox_history h limit = ([], h))
   \<and> (open_event_log h log_type = Inl e \<longrightarrow>
         get_event_logs h log_type ids limit = [''Fehler: '' @ exc_str e])"
  by (auto simp: get_recent_files_def get_chrome_history_def get_edge_history_def
      get_firefox_history_def get_event_logs_def query_sqlite_file_absent)

theorem absent_source_results_witness:
  "\<not> path_exists bare_host (recent_folder bare_host)
   \<and> \<not> path_exists bare_host (chrome_path bare_host)
   \<and> \<not> path_exists bare_host (edge_path bare_host)
   \<and> \<not> path_exists bare_host (firefox_profiles bare_host)
   \<and> get_recent_files bare_host 30 = []
   \<and> get_chrome_history bare_host 30 = ([], bare_host)
   \<and> get_edge_history bare_host 30 = ([], bare_host)
   \<and> get_firefox_history bare_host 30 = ([], bare_host)
   \<and> open_event_log bare_host ''System'' = Inl (PyException ''Access is denied'')
   \<and> get_event_logs bare_host ''System'' None 30 = [''Fehler: Access is denied'']"
  using absent_source_results [of bare_host 30 "[]" "[]" "[]" "''System''" "PyException ''Access is denied''" None]
  by (simp add: bare_host_def path_exists_def)

text \<open>
  C6. A file that is no database and a zero-byte file make the query raise. Whenever the
  query raises on the content of the browser's history store, the Chrome, the Edge and
  the Firefox extractor return the empty list.
\<close>

theorem corrupt_store_gives_no_rows:
  "(\<exists>e. run_query NotADatabase q ps = Inl e) \<and> (\<exists>e. run_query (Database []) q ps = Inl e)
   \<and> (files h (chrome_path h) = Some f \<and> run_query f (SelectRecent ''urls'') [limit] = Inl e
        \<longrightarrow> fst (get_chrome_history h limit) = [])
   \<and> (files h (edge_path h) = Some f \<and> run_query f (SelectRecent ''urls'') [limit] = Inl e
        \<longrightarrow> fst (get_edge_history h limit) = [])
   \<and> (listdir h (firefox_profiles h) = Inr names
        \<and> filter (\<lambda>p. isdir h (path_join (firefox_profiles h) p)) names = profile # rest
        \<and> files h (path_join (path_join (firefox_profiles h) profile) ''places.sqlite'') = Some f
        \<and> run_query f (SelectRecent ''moz_places'') [limit] = Inl e
        \<longrightarrow> fst (get_firefox_history h limit) = [])"
  by (auto simp: fst_get_chrome_history fst_get_edge_history fst_get_firefox_history
      query_sqlite_file_unreadable run_query_no_tables)

theorem corrupt_store_gives_no_rows_witness:
  "files corrupt_host (chrome_path corrupt_host) = Some NotADatabase
   \<and> run_query NotADatabase (SelectRecent ''urls'') [10] = Inl (PyException ''file is not a database'')
   \<and> fst (get_chrome_history corrupt_host 10) = []
   \<and> files corrupt_host (edge_path corrupt_host) = Some (Database [])
   \<and> run_query (Database []) (SelectRecent ''urls'') [10] = Inl (PyException ''no such table: urls'')
   \<and> fst (get_edge_history corrupt_host 10) = []
   \<and> listdir corrupt_host (firefox_profiles corrupt_host) = Inr [''x1.default'']
   \<and> filter (\<lambda>p. isdir corrupt_host (path_join (firefox_profiles corrupt_host) p)) [''x1.default''] = [''x1.default'']
   \<and> files corrupt_host (path_join (path_join (firefox_profiles corrupt_host) ''x1.default'') ''places.sqlite'')
        = Some NotADatabase
   \<and> fst (get_firefox_history corrupt_host 10) = []"
  using corrupt_store_gives_no_rows [where h = corrupt_host and f = NotADatabase and limit = 10
        and e = "PyException ''file is not a database''" and names = "[''x1.default'']"
        and profile = "''x1.default''" and rest = "[]"]
    corrupt_store_gives_no_rows [where h = corrupt_host and f = "Database []" and limit = 10
        and e = "PyException ''no such table: urls''"]
  by (simp add: corrupt_host_def bare_host_def firefox_places_def path_defs listdir_def isdir_def)

section \<open>The export text\<close>

lemma split_on_nonempty: "split_on c s \<noteq> []"
  by (induction s) (auto split: list.splits)

lemma split_on_free: "c \<notin> set s \<Longrightarrow> split_on c s = [s]"
  by (induction s) auto





lemma digits_nonempty: "digits n \<noteq> []"
  by (subst digits.simps) simp




section \<open>The filter and the event identifier\<close>







section \<open>The records of the export text\<close>











end
